theory Spec2Isabelle
  imports Main "HOL-Library.Word"
begin

section \<open>Values shared by the platform API\<close>

text \<open>
  The \<open>Exception\<close> values that the two source files name:
  \<open>Exception::kSuccess\<close> and \<open>Exception::kFailed\<close> are returned by
  \<open>bluetooth_classic_socket.cc\<close>; \<open>Exception::kIo\<close> is the value its comments
  (and those of \<open>wifi_lan_v2.h\<close>) promise on error.
\<close>

datatype Exception = kSuccess | kFailed | kIo

text \<open>\<open>ExceptionOr<T>\<close>: either a result or an \<open>Exception\<close> value.\<close>

datatype 'a ExceptionOr = ExceptionOrResult 'a | ExceptionOrException Exception

type_synonym ByteArray = "8 word list"

section \<open>The native WinRT layer, as seen from the code\<close>

text \<open>
  A WinRT interface reference (\<open>IStreamSocket\<close>, \<open>IInputStream\<close>,
  \<open>IOutputStream\<close>) is a nullable handle: \<open>None\<close> is \<open>nullptr\<close>.
\<close>

type_synonym handle = nat
type_synonym winrt_ref = "handle option"

text \<open>
  A native call either returns or throws. The handlers of the source are all
  \<open>catch (std::exception exception)\<close>, so what matters about a thrown object is
  whether its type derives from \<open>std::exception\<close>.
\<close>

datatype thrown = StdException | OtherThrown

datatype 'a native = Done 'a | Throws thrown

text \<open>
  What a method of the source does: it returns a value, lets a thrown object leave
  the method, or has undefined behaviour (a call through or a dereference of a null
  pointer, a copy past the end of a buffer).
\<close>

datatype 'a outcome = Returns 'a | Propagates thrown | Undefined

text \<open>
  \<open>Windows::Storage::Streams::Buffer\<close>: a capacity fixed at construction, the
  number of bytes in use, and the storage behind \<open>data()\<close>. \<open>Buffer(capacity)\<close>
  starts with \<open>Length() = 0\<close>.
\<close>

record Buffer =
  Capacity :: "32 word"
  Length :: "32 word"
  storage :: ByteArray

definition Buffer_new :: "32 word \<Rightarrow> Buffer" where
  "Buffer_new capacity =
     \<lparr>Capacity = capacity, Length = 0, storage = replicate (unat capacity) 0\<rparr>"

text \<open>\<open>std::memcpy(buffer.data(), src, n)\<close>; writing past the storage is undefined.\<close>

definition memcpy_into :: "Buffer \<Rightarrow> ByteArray \<Rightarrow> nat \<Rightarrow> Buffer option" where
  "memcpy_into buffer src n =
     (if n \<le> length (storage buffer)
      then Some (buffer\<lparr>storage := take n src @ drop n (storage buffer)\<rparr>)
      else None)"

text \<open>\<open>ByteArray data((char*)buffer.data(), n)\<close>; reading past the storage is undefined.\<close>

definition ByteArray_from :: "Buffer \<Rightarrow> nat \<Rightarrow> ByteArray option" where
  "ByteArray_from buffer n =
     (if n \<le> length (storage buffer) then Some (take n (storage buffer)) else None)"

section \<open>BluetoothSocket::BluetoothInputStream\<close>

record BluetoothInputStream =
  input_winrt_stream :: winrt_ref

definition BluetoothInputStream_new :: "winrt_ref \<Rightarrow> BluetoothInputStream" where
  "BluetoothInputStream_new stream = \<lparr>input_winrt_stream = stream\<rparr>"

text \<open>
  \<open>Read(std::int64_t size)\<close>. \<open>Buffer(size)\<close> and the count argument of
  \<open>ReadAsync\<close> take a \<open>uint32_t\<close>, so \<open>size\<close> (here \<open>sz\<close>) is narrowed. The parameter
  \<open>ReadAsync\<close> is the native call on this stream: from the buffer and the count
  to the buffer as the code sees it when the call has returned (the operation it
  starts is not awaited), or to what the call throws. There is no handler around
  it, the \<open>DataReader\<close> made from the buffer is not used, and the only
  \<open>return\<close> builds an \<open>ExceptionOr\<close> from the byte array.
\<close>

definition Read ::
  "BluetoothInputStream \<Rightarrow> 64 word \<Rightarrow> (Buffer \<Rightarrow> 32 word \<Rightarrow> Buffer native)
     \<Rightarrow> ByteArray ExceptionOr outcome" where
  "Read this sz ReadAsync =
     (let buffer = Buffer_new (ucast sz) in
      case input_winrt_stream this of
        None \<Rightarrow> Undefined
      | Some h \<Rightarrow>
         (case ReadAsync buffer (ucast sz) of
            Throws t \<Rightarrow> Propagates t
          | Done buffer' \<Rightarrow>
             (case ByteArray_from buffer' (unat (Length buffer')) of
                None \<Rightarrow> Undefined
              | Some data \<Rightarrow> Returns (ExceptionOrResult data))))"

text \<open>\<open>BluetoothInputStream::Close()\<close>; the parameter is the outcome of \<open>winrt_stream_.Close()\<close>.\<close>

definition BluetoothInputStream_Close ::
  "BluetoothInputStream \<Rightarrow> unit native \<Rightarrow> Exception outcome" where
  "BluetoothInputStream_Close this winrt_Close =
     (case input_winrt_stream this of
        None \<Rightarrow> Undefined
      | Some h \<Rightarrow>
         (case winrt_Close of
            Throws StdException \<Rightarrow> Returns kFailed
          | Throws OtherThrown \<Rightarrow> Propagates OtherThrown
          | Done u \<Rightarrow> Returns kSuccess))"

section \<open>BluetoothSocket::BluetoothOutputStream\<close>

record BluetoothOutputStream =
  output_winrt_stream :: winrt_ref

definition BluetoothOutputStream_new :: "winrt_ref \<Rightarrow> BluetoothOutputStream" where
  "BluetoothOutputStream_new stream = \<lparr>output_winrt_stream = stream\<rparr>"

text \<open>
  \<open>Write(const ByteArray& data)\<close>. The buffer is built and filled before the
  \<open>try\<close>; \<open>data.size()\<close> is narrowed to the \<open>uint32_t\<close> capacity, and the
  \<open>memcpy\<close> leaves \<open>Length()\<close> as it was. \<open>WriteAsync\<close> is the native call.
\<close>

definition Write ::
  "BluetoothOutputStream \<Rightarrow> ByteArray \<Rightarrow> (Buffer \<Rightarrow> unit native) \<Rightarrow> Exception outcome" where
  "Write this data WriteAsync =
     (case memcpy_into (Buffer_new (of_nat (length data))) data (length data) of
        None \<Rightarrow> Undefined
      | Some buffer \<Rightarrow>
         (case output_winrt_stream this of
            None \<Rightarrow> Undefined
          | Some h \<Rightarrow>
             (case WriteAsync buffer of
                Throws StdException \<Rightarrow> Returns kFailed
              | Throws OtherThrown \<Rightarrow> Propagates OtherThrown
              | Done u \<Rightarrow> Returns kSuccess)))"

text \<open>\<open>Flush()\<close>; the parameter is the outcome of \<open>winrt_stream_.FlushAsync().get()\<close>.\<close>

definition Flush :: "BluetoothOutputStream \<Rightarrow> unit native \<Rightarrow> Exception outcome" where
  "Flush this FlushAsync_get =
     (case output_winrt_stream this of
        None \<Rightarrow> Undefined
      | Some h \<Rightarrow>
         (case FlushAsync_get of
            Throws StdException \<Rightarrow> Returns kFailed
          | Throws OtherThrown \<Rightarrow> Propagates OtherThrown
          | Done u \<Rightarrow> Returns kSuccess))"

text \<open>\<open>BluetoothOutputStream::Close()\<close>.\<close>

definition BluetoothOutputStream_Close ::
  "BluetoothOutputStream \<Rightarrow> unit native \<Rightarrow> Exception outcome" where
  "BluetoothOutputStream_Close this winrt_Close =
     (case output_winrt_stream this of
        None \<Rightarrow> Undefined
      | Some h \<Rightarrow>
         (case winrt_Close of
            Throws StdException \<Rightarrow> Returns kFailed
          | Throws OtherThrown \<Rightarrow> Propagates OtherThrown
          | Done u \<Rightarrow> Returns kSuccess))"

section \<open>BluetoothSocket\<close>

text \<open>
  The three members the source file assigns: the native socket and the two owned
  streams (\<open>std::unique_ptr\<close>, \<open>None\<close> for \<open>nullptr\<close>). The members are
  \<open>windows_socket_\<close>, \<open>input_stream_\<close> and \<open>output_stream_\<close> in the source;
  a name cannot end in an underscore here. Both stream classes call their member
  \<open>winrt_stream_\<close>.
\<close>

record BluetoothSocket =
  windows_socket :: winrt_ref
  input_stream :: "BluetoothInputStream option"
  output_stream :: "BluetoothOutputStream option"

text \<open>
  The constructor. \<open>socket\<close> is the value of the expression \<open>IStreamSocket()\<close>,
  which the WinRT projection header decides; \<open>winrt_InputStream\<close> and
  \<open>winrt_OutputStream\<close> are the outcomes of the two accessor calls on it.
  \<open>std::make_unique\<close> never yields \<open>nullptr\<close>.
\<close>

definition BluetoothSocket_new ::
  "winrt_ref \<Rightarrow> winrt_ref native \<Rightarrow> winrt_ref native \<Rightarrow> BluetoothSocket outcome" where
  "BluetoothSocket_new socket winrt_InputStream winrt_OutputStream =
     (case socket of
        None \<Rightarrow> Undefined
      | Some h \<Rightarrow>
         (case winrt_InputStream of
            Throws t \<Rightarrow> Propagates t
          | Done i \<Rightarrow>
             (case winrt_OutputStream of
                Throws t \<Rightarrow> Propagates t
              | Done out \<Rightarrow>
                 Returns \<lparr>windows_socket = Some h,
                          input_stream = Some (BluetoothInputStream_new i),
                          output_stream = Some (BluetoothOutputStream_new out)\<rparr>)))"

text \<open>\<open>return *input_stream.get();\<close> and \<open>return *output_stream.get();\<close>\<close>

definition GetInputStream :: "BluetoothSocket \<Rightarrow> BluetoothInputStream outcome" where
  "GetInputStream this =
     (case input_stream this of None \<Rightarrow> Undefined | Some s \<Rightarrow> Returns s)"

definition GetOutputStream :: "BluetoothSocket \<Rightarrow> BluetoothOutputStream outcome" where
  "GetOutputStream this =
     (case output_stream this of None \<Rightarrow> Undefined | Some s \<Rightarrow> Returns s)"

text \<open>
  \<open>BluetoothSocket::Close()\<close>: the native \<open>Close()\<close> is called on
  \<open>windows_socket\<close> with no null test and no handler, then the three members
  are set to \<open>nullptr\<close> and \<open>kSuccess\<close> is returned. The result pairs the
  outcome with the object afterwards; when the native call throws, the three
  assignments are not reached.
\<close>

definition Close :: "BluetoothSocket \<Rightarrow> unit native \<Rightarrow> Exception outcome \<times> BluetoothSocket" where
  "Close this winrt_Close =
     (case windows_socket this of
        None \<Rightarrow> (Undefined, this)
      | Some h \<Rightarrow>
         (case winrt_Close of
            Throws t \<Rightarrow> (Propagates t, this)
          | Done u \<Rightarrow>
             (Returns kSuccess,
              this\<lparr>windows_socket := None, input_stream := None, output_stream := None\<rparr>)))"

text \<open>\<open>GetRemoteDevice()\<close>: \<open>return nullptr;\<close> under a TODO.\<close>

type_synonym BluetoothDevice = handle

definition GetRemoteDevice :: "BluetoothSocket \<Rightarrow> BluetoothDevice option" where
  "GetRemoteDevice this = None"

text \<open>
  \<open>ConnectAsync\<close> and \<open>CancelIOAsync\<close> forward to the native socket and hand
  back the asynchronous action it returns; the last parameter is the outcome of
  the native call.
\<close>

type_synonym IAsyncAction = handle

definition ConnectAsync ::
  "BluetoothSocket \<Rightarrow> string \<Rightarrow> string \<Rightarrow> IAsyncAction native \<Rightarrow> IAsyncAction outcome" where
  "ConnectAsync this connectionHostName connectionServiceName winrt_ConnectAsync =
     (case windows_socket this of
        None \<Rightarrow> Undefined
      | Some h \<Rightarrow>
         (case winrt_ConnectAsync of
            Throws t \<Rightarrow> Propagates t
          | Done a \<Rightarrow> Returns a))"

definition CancelIOAsync :: "BluetoothSocket \<Rightarrow> IAsyncAction native \<Rightarrow> IAsyncAction outcome" where
  "CancelIOAsync this winrt_CancelIOAsync =
     (case windows_socket this of
        None \<Rightarrow> Undefined
      | Some h \<Rightarrow>
         (case winrt_CancelIOAsync of
            Throws t \<Rightarrow> Propagates t
          | Done a \<Rightarrow> Returns a))"

text \<open>
  A call of one of the socket's methods, with the native behaviour it meets, and
  the object it leaves behind. Only \<open>Close\<close> assigns to a member.
\<close>

datatype socket_call =
    CallGetInputStream
  | CallGetOutputStream
  | CallGetRemoteDevice
  | CallConnectAsync string string "IAsyncAction native"
  | CallCancelIOAsync "IAsyncAction native"
  | CallClose "unit native"

fun is_Close :: "socket_call \<Rightarrow> bool" where
  "is_Close (CallClose n) = True"
| "is_Close c = False"

fun after_call :: "BluetoothSocket \<Rightarrow> socket_call \<Rightarrow> BluetoothSocket" where
  "after_call this (CallClose n) = snd (Close this n)"
| "after_call this c = this"

fun after_calls :: "BluetoothSocket \<Rightarrow> socket_call list \<Rightarrow> BluetoothSocket" where
  "after_calls this [] = this"
| "after_calls this (c # cs) = after_calls (after_call this c) cs"

text \<open>
  A caller may keep the reference that \<open>GetInputStream()\<close> or
  \<open>GetOutputStream()\<close> returned. The reference names the object that the socket's
  \<open>std::unique_ptr\<close> owns: a call through it is the call on that object for as
  long as the pointer has not been reset, and once \<open>Close()\<close> has reset the
  pointer the object is destroyed and the call is undefined. The first argument
  is the socket as it is when the call is made.
\<close>

definition held_Read ::
  "BluetoothSocket \<Rightarrow> 64 word \<Rightarrow> (Buffer \<Rightarrow> 32 word \<Rightarrow> Buffer native)
     \<Rightarrow> ByteArray ExceptionOr outcome" where
  "held_Read owner sz ReadAsync =
     (case input_stream owner of None \<Rightarrow> Undefined | Some s \<Rightarrow> Read s sz ReadAsync)"

definition held_Write ::
  "BluetoothSocket \<Rightarrow> ByteArray \<Rightarrow> (Buffer \<Rightarrow> unit native) \<Rightarrow> Exception outcome" where
  "held_Write owner data WriteAsync =
     (case output_stream owner of None \<Rightarrow> Undefined | Some s \<Rightarrow> Write s data WriteAsync)"

definition held_Flush :: "BluetoothSocket \<Rightarrow> unit native \<Rightarrow> Exception outcome" where
  "held_Flush owner FlushAsync_get =
     (case output_stream owner of None \<Rightarrow> Undefined | Some s \<Rightarrow> Flush s FlushAsync_get)"

section \<open>The WifiLan medium of \<open>wifi_lan_v2.h\<close>\<close>

text \<open>
  \<open>wifi_lan_v2.h\<close> declares \<open>WifiLanSocket\<close> and \<open>WifiLanMediumV2\<close> with pure
  virtual methods only; the classes that implement them are not among the source
  files. What follows is written from the specification's sections 3 and 4.4 and
  from the comments of the header.
\<close>

record WifiLanService =
  service_address :: string
  service_port :: nat

record WifiLanSocket =
  connection :: handle
  remote_service :: "WifiLanService option"
  closed :: bool

text \<open>
  One poll of a pending connection attempt reads the cancellation flag and then
  looks at the native attempt, which is still running, has produced a connection,
  or has failed.
\<close>

datatype connect_progress = StillConnecting | ConnectSucceeded handle | ConnectFailed

text \<open>
  Modelled from the spec: the body of \<open>WifiLanMediumV2::ConnectToService\<close>, of which
  the header has the declaration only. It is a blocking call that polls the
  cancellation token, so that setting the token makes it return \<open>no socket\<close>
  instead of waiting for a native timeout; on success it returns a connected
  socket, on failure (cancellation included) the explicit sentinel. The list holds,
  poll by poll, the value read from the token and the state of the native attempt;
  when it ends with the attempt still running, the native timeout has struck.
\<close>

fun ConnectToService ::
  "WifiLanService \<Rightarrow> (bool \<times> connect_progress) list \<Rightarrow> WifiLanSocket option" where
  "ConnectToService remote [] = None"
| "ConnectToService remote ((cancelled, progress) # polls) =
     (if cancelled then None
      else case progress of
        StillConnecting \<Rightarrow> ConnectToService remote polls
      | ConnectSucceeded h \<Rightarrow>
          Some \<lparr>connection = h, remote_service = Some remote, closed = False\<rparr>
      | ConnectFailed \<Rightarrow> None)"

text \<open>
  A \<open>DiscoveredServiceCallback\<close> is a pair of \<open>std::function\<close> values; the
  header and the specification compare callbacks by instance, so a callback is
  stood for by its identity.
\<close>

type_synonym callback_id = nat

datatype discovery = Idle | Discovering callback_id

text \<open>
  Modelled from the spec: the bodies of \<open>WifiLanMediumV2::StartDiscovery\<close> and
  \<open>StopDiscovery\<close>, declared pure virtual in the header. The discovery state machine
  is Idle, StartDiscovery(callback), Discovering, StopDiscovery(callback), Idle,
  keyed by callback identity; stopping with a callback of another identity is a
  no-op. The boolean is the method's result: \<open>StartDiscovery\<close> reports that
  discovery was initiated, \<open>StopDiscovery\<close> that it is stopped. The specification
  does not say what a second \<open>StartDiscovery\<close> does while discovering; here it
  fails and changes nothing, the strategy the specification accepts for
  advertising.
\<close>

fun StartDiscovery :: "discovery \<Rightarrow> callback_id \<Rightarrow> bool \<times> discovery" where
  "StartDiscovery Idle callback = (True, Discovering callback)"
| "StartDiscovery (Discovering registered) callback = (False, Discovering registered)"

fun StopDiscovery :: "discovery \<Rightarrow> callback_id \<Rightarrow> bool \<times> discovery" where
  "StopDiscovery Idle callback = (True, Idle)"
| "StopDiscovery (Discovering registered) callback =
     (if callback = registered then (True, Idle) else (False, Discovering registered))"

section \<open>Native behaviours for concrete runs\<close>

text \<open>
  Three ways the native stream can answer, used where a property is evaluated on a
  concrete input. A read that throws; a read that puts into the buffer as many of
  the pending bytes as the count and the capacity allow and sets \<open>Length()\<close>; a
  write that throws; a write that returns.
\<close>

definition ReadAsync_throws :: "thrown \<Rightarrow> Buffer \<Rightarrow> 32 word \<Rightarrow> Buffer native" where
  "ReadAsync_throws t buffer count = Throws t"

definition ReadAsync_delivers :: "ByteArray \<Rightarrow> Buffer \<Rightarrow> 32 word \<Rightarrow> Buffer native" where
  "ReadAsync_delivers pending buffer count =
     (let n = min (length pending) (min (unat count) (unat (Capacity buffer))) in
      Done (buffer\<lparr>Length := of_nat n,
                   storage := take n pending @ drop n (storage buffer)\<rparr>))"

definition WriteAsync_throws :: "thrown \<Rightarrow> Buffer \<Rightarrow> unit native" where
  "WriteAsync_throws t buffer = Throws t"

definition WriteAsync_accepts :: "Buffer \<Rightarrow> unit native" where
  "WriteAsync_accepts buffer = Done ()"

section \<open>Facts about the native buffer arithmetic\<close>

lemma unat_narrow_le: "unat (ucast (sz :: 64 word) :: 32 word) \<le> unat sz"
  by (simp add: unsigned_ucast_eq)

lemma sint_nonneg_uint:
  assumes "0 \<le> sint (sz :: 64 word)"
  shows "sint sz = uint sz"
proof -
  have nb: "\<not> bit (uint sz) 63"
    using assms by (simp add: sint_uint)
  have lt: "uint sz < 18446744073709551616"
    using uint_lt2p [of sz] by simp
  have small: "uint sz < 9223372036854775808"
  proof (rule ccontr)
    assume "\<not> uint sz < 9223372036854775808"
    then have "uint sz div 9223372036854775808 = 1"
      using lt by arith
    then have "bit (uint sz) 63"
      by (simp add: bit_iff_odd)
    with nb show False ..
  qed
  have "sint sz = take_bit 63 (uint sz)"
    using nb by (simp add: sint_uint signed_take_bit_eq_if_positive)
  also have "\<dots> = uint sz"
    using small by (simp add: take_bit_int_eq_self_iff)
  finally show ?thesis .
qed

lemma memcpy_whole:
  "length data < 2 ^ 32 \<Longrightarrow>
   memcpy_into (Buffer_new (of_nat (length data))) data (length data)
     = Some \<lparr>Capacity = of_nat (length data), Length = 0, storage = data\<rparr>"
  by (simp add: memcpy_into_def Buffer_new_def unat_of_nat)

section \<open>The streams\<close>

text \<open>
  When \<open>Read\<close> returns, it returns a result, and the result has as many bytes as the
  native buffer reports in use.
\<close>

lemma Read_Returns_length:
  assumes "Read st sz ReadAsync = Returns (ExceptionOrResult data)"
  shows "\<exists>b'. ReadAsync (Buffer_new (ucast sz)) (ucast sz) = Done b'
              \<and> length data = unat (Length b')"
  using assms
  by (auto simp: Read_def Let_def ByteArray_from_def
           split: option.splits native.splits if_splits)

text \<open>
  For a non-negative \<open>size\<close>, a native read that keeps the buffer's capacity and
  the buffer's own bound \<open>Length() \<le> Capacity()\<close> gives a result of at most
  \<open>size\<close> bytes: narrowing a non-negative \<open>int64_t\<close> to \<open>uint32_t\<close> never
  enlarges it.
\<close>

lemma Read_length_le_size:
  assumes "0 \<le> sint sz"
    and "ReadAsync (Buffer_new (ucast sz)) (ucast sz) = Done b'"
    and "Capacity b' = ucast sz" and "Length b' \<le> Capacity b'"
    and "Read st sz ReadAsync = Returns (ExceptionOrResult data)"
  shows "int (length data) \<le> sint sz"
proof -
  from assms(5) assms(2) have "length data = unat (Length b')"
    using Read_Returns_length by fastforce
  also have "\<dots> \<le> unat (Capacity b')"
    using assms(4) by (simp add: word_le_nat_alt)
  also have "\<dots> \<le> unat sz"
    using assms(3) unat_narrow_le by simp
  finally have "int (length data) \<le> uint sz"
    by (simp only: uint_nat of_nat_le_iff)
  then show ?thesis
    using sint_nonneg_uint [OF assms(1)] by simp
qed

lemma Write_cases:
  assumes "length data < 2 ^ 32" and "output_winrt_stream out = Some h"
  shows "Write out data WriteAsync =
     (case WriteAsync \<lparr>Capacity = of_nat (length data), Length = 0, storage = data\<rparr> of
        Throws StdException \<Rightarrow> Returns kFailed
      | Throws OtherThrown \<Rightarrow> Propagates OtherThrown
      | Done u \<Rightarrow> Returns kSuccess)"
  using assms by (simp add: Write_def memcpy_whole)

lemma Write_overrun:
  assumes "length data = 2 ^ 32"
  shows "Write out data WriteAsync = Undefined"
proof -
  have "(of_nat (length data) :: 32 word) = 0"
    using assms by simp
  then have "memcpy_into (Buffer_new (of_nat (length data))) data (length data) = None"
    using assms by (simp add: memcpy_into_def Buffer_new_def)
  then show ?thesis
    by (simp add: Write_def)
qed

section \<open>The socket\<close>

lemma Close_Returns:
  assumes "fst (Close this n) = Returns e"
  shows "e = kSuccess" and "windows_socket (snd (Close this n)) = None"
    and "input_stream (snd (Close this n)) = None"
    and "output_stream (snd (Close this n)) = None"
  using assms by (auto simp: Close_def split: option.splits native.splits)

lemma BluetoothSocket_new_Returns:
  assumes "BluetoothSocket_new socket i out = Returns this"
  shows "windows_socket this \<noteq> None" and "input_stream this \<noteq> None"
    and "output_stream this \<noteq> None"
  using assms
  by (auto simp: BluetoothSocket_new_def split: option.splits native.splits)

lemma after_calls_no_Close:
  "list_all (\<lambda>c. \<not> is_Close c) calls \<Longrightarrow> after_calls this calls = this"
proof (induction calls arbitrary: this)
  case Nil
  then show ?case by simp
next
  case (Cons c cs)
  then show ?case by (cases c) simp_all
qed

section \<open>The claims\<close>

text \<open>
  C1, as stated: once \<open>Close()\<close> has been observed on the socket or on the
  stream, every later \<open>Read\<close>, \<open>Write\<close> or \<open>Flush\<close> on the stream returns an
  I/O failure. Against it: after the input stream's own \<open>Close()\<close> has returned
  success, a \<open>Read\<close> whose native call throws lets the exception leave, and one
  whose native call returns reports success; after the socket's \<open>Close()\<close> has
  returned success, \<open>GetInputStream\<close> and \<open>GetOutputStream\<close> dereference a null
  pointer, and a \<open>Read\<close>, \<open>Write\<close> or \<open>Flush\<close> through a reference taken
  before reaches a destroyed stream.
\<close>

theorem use_after_Close_counterexample:
  "BluetoothInputStream_Close \<lparr>input_winrt_stream = Some 2\<rparr> (Done ()) = Returns kSuccess
   \<and> Read \<lparr>input_winrt_stream = Some 2\<rparr> 4 (ReadAsync_throws StdException)
         = Propagates StdException
   \<and> Read \<lparr>input_winrt_stream = Some 2\<rparr> 4 (ReadAsync_delivers [])
         = Returns (ExceptionOrResult [])
   \<and> fst (Close \<lparr>windows_socket = Some 1,
                 input_stream = Some \<lparr>input_winrt_stream = Some 2\<rparr>,
                 output_stream = Some \<lparr>output_winrt_stream = Some 3\<rparr>\<rparr> (Done ()))
         = Returns kSuccess
   \<and> GetInputStream (snd (Close \<lparr>windows_socket = Some 1,
                 input_stream = Some \<lparr>input_winrt_stream = Some 2\<rparr>,
                 output_stream = Some \<lparr>output_winrt_stream = Some 3\<rparr>\<rparr> (Done ())))
         = Undefined
   \<and> GetOutputStream (snd (Close \<lparr>windows_socket = Some 1,
                 input_stream = Some \<lparr>input_winrt_stream = Some 2\<rparr>,
                 output_stream = Some \<lparr>output_winrt_stream = Some 3\<rparr>\<rparr> (Done ())))
         = Undefined
   \<and> held_Read (snd (Close \<lparr>windows_socket = Some 1,
                 input_stream = Some \<lparr>input_winrt_stream = Some 2\<rparr>,
                 output_stream = Some \<lparr>output_winrt_stream = Some 3\<rparr>\<rparr> (Done ()))) 4 (ReadAsync_delivers [7, 8, 9])
         = Undefined
   \<and> held_Write (snd (Close \<lparr>windows_socket = Some 1,
                 input_stream = Some \<lparr>input_winrt_stream = Some 2\<rparr>,
                 output_stream = Some \<lparr>output_winrt_stream = Some 3\<rparr>\<rparr> (Done ()))) [1, 2] (WriteAsync_throws StdException)
         = Undefined
   \<and> held_Flush (snd (Close \<lparr>windows_socket = Some 1,
                 input_stream = Some \<lparr>input_winrt_stream = Some 2\<rparr>,
                 output_stream = Some \<lparr>output_winrt_stream = Some 3\<rparr>\<rparr> (Done ()))) (Throws StdException)
         = Undefined"
  by (simp add: BluetoothInputStream_Close_def Read_def ReadAsync_throws_def
        ReadAsync_delivers_def Buffer_new_def ByteArray_from_def Let_def
        Close_def GetInputStream_def GetOutputStream_def
        held_Read_def held_Write_def held_Flush_def)

text \<open>
  C1, amended: once \<open>Close()\<close> on the socket has returned, the socket has
  destroyed both streams: \<open>GetInputStream\<close> and \<open>GetOutputStream\<close>, and every
  \<open>Read\<close>, \<open>Write\<close> and \<open>Flush\<close> through a stream reference taken before the
  \<open>Close()\<close>, are undefined instead of returning an I/O failure. Before it, a
  call through such a reference is the call on the stream the socket owns.
\<close>

theorem streams_after_Close:
  "fst (Close this n) = Returns e \<Longrightarrow>
     GetInputStream (snd (Close this n)) = Undefined
     \<and> GetOutputStream (snd (Close this n)) = Undefined
     \<and> held_Read (snd (Close this n)) sz ReadAsync = Undefined
     \<and> held_Write (snd (Close this n)) data WriteAsync = Undefined
     \<and> held_Flush (snd (Close this n)) f = Undefined
     \<and> (input_stream this = Some i \<longrightarrow> held_Read this sz ReadAsync = Read i sz ReadAsync)
     \<and> (output_stream this = Some out \<longrightarrow>
           held_Write this data WriteAsync = Write out data WriteAsync
           \<and> held_Flush this f = Flush out f)"
proof -
  assume r: "fst (Close this n) = Returns e"
  have gone: "input_stream (snd (Close this n)) = None"
    "output_stream (snd (Close this n)) = None"
    using Close_Returns(3,4) [OF r] by simp_all
  show ?thesis
    using gone
    by (simp add: GetInputStream_def GetOutputStream_def
          held_Read_def held_Write_def held_Flush_def)
qed

theorem streams_after_Close_witness:
  "fst (Close \<lparr>windows_socket = Some 1,
                 input_stream = Some \<lparr>input_winrt_stream = Some 2\<rparr>,
                 output_stream = Some \<lparr>output_winrt_stream = Some 3\<rparr>\<rparr> (Done ()))
     = Returns kSuccess
   \<and> input_stream \<lparr>windows_socket = Some 1,
                 input_stream = Some \<lparr>input_winrt_stream = Some 2\<rparr>,
                 output_stream = Some \<lparr>output_winrt_stream = Some 3\<rparr>\<rparr> = Some \<lparr>input_winrt_stream = Some 2\<rparr>
   \<and> output_stream \<lparr>windows_socket = Some 1,
                 input_stream = Some \<lparr>input_winrt_stream = Some 2\<rparr>,
                 output_stream = Some \<lparr>output_winrt_stream = Some 3\<rparr>\<rparr> = Some \<lparr>output_winrt_stream = Some 3\<rparr>
   \<and> held_Read \<lparr>windows_socket = Some 1,
                 input_stream = Some \<lparr>input_winrt_stream = Some 2\<rparr>,
                 output_stream = Some \<lparr>output_winrt_stream = Some 3\<rparr>\<rparr> 4 (ReadAsync_delivers [7, 8, 9])
     = Returns (ExceptionOrResult [7, 8, 9])
   \<and> held_Flush \<lparr>windows_socket = Some 1,
                 input_stream = Some \<lparr>input_winrt_stream = Some 2\<rparr>,
                 output_stream = Some \<lparr>output_winrt_stream = Some 3\<rparr>\<rparr> (Done ()) = Returns kSuccess
   \<and> held_Read (snd (Close \<lparr>windows_socket = Some 1,
                 input_stream = Some \<lparr>input_winrt_stream = Some 2\<rparr>,
                 output_stream = Some \<lparr>output_winrt_stream = Some 3\<rparr>\<rparr> (Done ()))) 4 (ReadAsync_delivers [7, 8, 9])
     = Undefined
   \<and> held_Flush (snd (Close \<lparr>windows_socket = Some 1,
                 input_stream = Some \<lparr>input_winrt_stream = Some 2\<rparr>,
                 output_stream = Some \<lparr>output_winrt_stream = Some 3\<rparr>\<rparr> (Done ()))) (Done ()) = Undefined"
proof -
  have r: "fst (Close \<lparr>windows_socket = Some 1,
                 input_stream = Some \<lparr>input_winrt_stream = Some 2\<rparr>,
                 output_stream = Some \<lparr>output_winrt_stream = Some 3\<rparr>\<rparr> (Done ()))
     = Returns kSuccess"
    by (simp add: Close_def)
  have before: "Read \<lparr>input_winrt_stream = Some 2\<rparr> 4 (ReadAsync_delivers [7, 8, 9])
       = Returns (ExceptionOrResult [7, 8, 9])"
    "Flush \<lparr>output_winrt_stream = Some 3\<rparr> (Done ()) = Returns kSuccess"
    by (simp_all add: Read_def ReadAsync_delivers_def Buffer_new_def ByteArray_from_def
          Let_def Flush_def)
  show ?thesis
    using r before
      streams_after_Close [OF r, of 4 "ReadAsync_delivers [7, 8, 9]" "[1, 2]"
        "WriteAsync_throws StdException" "Done ()" "\<lparr>input_winrt_stream = Some 2\<rparr>"
        "\<lparr>output_winrt_stream = Some 3\<rparr>"]
    by simp
qed

text \<open>
  C2, on the code: on a connected socket the first \<open>Close()\<close> returns
  \<open>kSuccess\<close> and resets the three members; the second \<open>Close()\<close> calls the
  native \<open>Close()\<close> through the member the first one set to \<open>nullptr\<close>, with
  no null test before it, so it does not return success again.
\<close>

theorem Close_second_call_undefined:
  "fst (Close \<lparr>windows_socket = Some 1,
                 input_stream = Some \<lparr>input_winrt_stream = Some 2\<rparr>,
                 output_stream = Some \<lparr>output_winrt_stream = Some 3\<rparr>\<rparr> (Done ()))
     = Returns kSuccess
   \<and> windows_socket (snd (Close \<lparr>windows_socket = Some 1,
                 input_stream = Some \<lparr>input_winrt_stream = Some 2\<rparr>,
                 output_stream = Some \<lparr>output_winrt_stream = Some 3\<rparr>\<rparr> (Done ()))) = None
   \<and> fst (Close (snd (Close \<lparr>windows_socket = Some 1,
                 input_stream = Some \<lparr>input_winrt_stream = Some 2\<rparr>,
                 output_stream = Some \<lparr>output_winrt_stream = Some 3\<rparr>\<rparr> (Done ()))) (Done ()))
     = Undefined"
  by (simp add: Close_def)

text \<open>
  C3, on the code: when the native teardown throws, \<open>Close()\<close> on a connected
  socket returns nothing (the exception leaves the method, where the comment above
  it promises \<open>Exception::kIo\<close>), and the socket keeps its native socket and both
  streams.
\<close>

theorem Close_teardown_fault:
  "Close \<lparr>windows_socket = Some 1,
          input_stream = Some \<lparr>input_winrt_stream = Some 2\<rparr>,
          output_stream = Some \<lparr>output_winrt_stream = Some 3\<rparr>\<rparr> (Throws StdException)
     = (Propagates StdException,
        \<lparr>windows_socket = Some 1,
         input_stream = Some \<lparr>input_winrt_stream = Some 2\<rparr>,
         output_stream = Some \<lparr>output_winrt_stream = Some 3\<rparr>\<rparr>)"
  by (simp add: Close_def)

text \<open>
  C4, on the code: a \<open>Read\<close> of 16 bytes whose native call throws a
  \<open>std::exception\<close> does not return a typed error; the exception crosses the
  method, which has no handler.
\<close>

theorem Read_broken_connection_propagates:
  "Read \<lparr>input_winrt_stream = Some 2\<rparr> 16 (ReadAsync_throws StdException)
     = Propagates StdException"
  by (simp add: Read_def ReadAsync_throws_def Let_def)

text \<open>
  C5, on the code: with three bytes pending, \<open>Read(2)\<close> returns two of them and
  \<open>Read(4)\<close> all three, within \<open>max_size\<close>; on a broken connection, whatever
  the native call throws, \<open>Read(4)\<close> returns no I/O error but lets it through.
\<close>

theorem Read_bounded_but_never_fails:
  "Read \<lparr>input_winrt_stream = Some 2\<rparr> 2 (ReadAsync_delivers [7, 8, 9])
     = Returns (ExceptionOrResult [7, 8])
   \<and> Read \<lparr>input_winrt_stream = Some 2\<rparr> 4 (ReadAsync_delivers [7, 8, 9])
     = Returns (ExceptionOrResult [7, 8, 9])
   \<and> Read \<lparr>input_winrt_stream = Some 2\<rparr> 4 (ReadAsync_throws OtherThrown)
     = Propagates OtherThrown
   \<and> Read \<lparr>input_winrt_stream = Some 2\<rparr> 4 (ReadAsync_throws StdException)
     \<noteq> Returns (ExceptionOrException kIo)"
  by (simp add: Read_def ReadAsync_throws_def ReadAsync_delivers_def Buffer_new_def
        ByteArray_from_def Let_def)

section \<open>Connecting and discovering\<close>

lemma ConnectToService_cancelled:
  "i < length polls \<Longrightarrow> fst (polls ! i) \<Longrightarrow>
   (\<forall>j<i. snd (polls ! j) = StillConnecting) \<Longrightarrow>
   ConnectToService remote polls = None"
proof (induction polls arbitrary: i)
  case Nil
  then show ?case by simp
next
  case (Cons p polls)
  obtain cancelled progress where p: "p = (cancelled, progress)"
    by (cases p)
  show ?case
  proof (cases i)
    case 0
    with Cons.prems p show ?thesis by simp
  next
    case (Suc k)
    with Cons.prems have k: "k < length polls" "fst (polls ! k)"
      by simp_all
    from Cons.prems(3) Suc have first: "snd ((p # polls) ! 0) = StillConnecting"
      by blast
    have rest: "\<forall>j<k. snd (polls ! j) = StillConnecting"
    proof (intro allI impI)
      fix j assume "j < k"
      then have "Suc j < i" using Suc by simp
      with Cons.prems(3) have "snd ((p # polls) ! Suc j) = StillConnecting"
        by blast
      then show "snd (polls ! j) = StillConnecting" by simp
    qed
    have "ConnectToService remote polls = None"
      using Cons.IH [OF k rest] .
    with first p show ?thesis by simp
  qed
qed

lemma ConnectToService_Some:
  "ConnectToService remote polls = Some s \<Longrightarrow>
     remote_service s = Some remote \<and> \<not> closed s
     \<and> (\<exists>k<length polls. polls ! k = (False, ConnectSucceeded (connection s)))"
proof (induction polls)
  case Nil
  then show ?case by simp
next
  case (Cons p polls)
  obtain cancelled progress where p: "p = (cancelled, progress)"
    by (cases p)
  show ?case
  proof (cases progress)
    case StillConnecting
    with Cons.prems p have "ConnectToService remote polls = Some s"
      by (simp split: if_splits)
    from Cons.IH [OF this] obtain k where "k < length polls"
      and "polls ! k = (False, ConnectSucceeded (connection s))"
      and "remote_service s = Some remote \<and> \<not> closed s"
      by blast
    then have "Suc k < length (p # polls)
        \<and> (p # polls) ! Suc k = (False, ConnectSucceeded (connection s))"
      by simp
    with \<open>remote_service s = Some remote \<and> \<not> closed s\<close> show ?thesis by blast
  next
    case (ConnectSucceeded h)
    with Cons.prems p have "s = \<lparr>connection = h, remote_service = Some remote, closed = False\<rparr>"
      and "\<not> cancelled"
      by (simp_all split: if_splits)
    with p ConnectSucceeded have "(p # polls) ! 0 = (False, ConnectSucceeded (connection s))"
      by simp
    with \<open>s = _\<close> show ?thesis by fastforce
  next
    case ConnectFailed
    with Cons.prems p show ?thesis by (simp split: if_splits)
  qed
qed

text \<open>
  C6: when the cancellation token reads as set at some poll of the call and the
  native attempt has not completed at an earlier poll (poll 0 when the token was
  set before the call), \<open>ConnectToService\<close> returns no socket; and a socket it
  does return is an open one for the requested service over a connection that the
  native attempt produced while the token read as clear.
\<close>

theorem ConnectToService_cancellation:
  "(i < length polls \<and> fst (polls ! i) \<and> (\<forall>j<i. snd (polls ! j) = StillConnecting)
      \<longrightarrow> ConnectToService remote polls = None)
   \<and> (ConnectToService remote polls' = Some s
      \<longrightarrow> remote_service s = Some remote \<and> \<not> closed s
          \<and> (\<exists>k<length polls'. polls' ! k = (False, ConnectSucceeded (connection s))))"
  using ConnectToService_cancelled [of i polls remote]
    ConnectToService_Some [of remote polls' s]
  by blast

theorem ConnectToService_cancellation_witness:
  "ConnectToService \<lparr>service_address = ''10.0.0.5'', service_port = 4242\<rparr>
      [(True, ConnectSucceeded 7)] = None
   \<and> ConnectToService \<lparr>service_address = ''10.0.0.5'', service_port = 4242\<rparr>
      [(False, StillConnecting), (True, ConnectSucceeded 7)] = None
   \<and> ConnectToService \<lparr>service_address = ''10.0.0.5'', service_port = 4242\<rparr>
      [(False, StillConnecting), (False, ConnectSucceeded 7)]
       = Some \<lparr>connection = 7,
               remote_service = Some \<lparr>service_address = ''10.0.0.5'', service_port = 4242\<rparr>,
               closed = False\<rparr>
   \<and> \<not> closed \<lparr>connection = 7,
               remote_service = Some \<lparr>service_address = ''10.0.0.5'', service_port = 4242\<rparr>,
               closed = False\<rparr>"
proof -
  let ?remote = "\<lparr>service_address = ''10.0.0.5'', service_port = 4242\<rparr>"
  let ?s = "\<lparr>connection = 7, remote_service = Some ?remote, closed = False\<rparr>"
  have before: "ConnectToService ?remote [(True, ConnectSucceeded 7)] = None"
    using ConnectToService_cancellation
      [of 0 "[(True, ConnectSucceeded 7)]" ?remote "[(False, ConnectSucceeded 7)]" ?s]
    by simp
  have during: "ConnectToService ?remote
      [(False, StillConnecting), (True, ConnectSucceeded 7)] = None"
    and ok: "\<not> closed ?s"
    using ConnectToService_cancellation
      [of 1 "[(False, StillConnecting), (True, ConnectSucceeded 7)]" ?remote
          "[(False, StillConnecting), (False, ConnectSucceeded 7)]" ?s]
    by simp_all
  show ?thesis
    using before during ok by simp
qed

lemma StopDiscovery_others:
  "cb \<notin> set cbs \<Longrightarrow>
     foldl (\<lambda>m c. snd (StopDiscovery m c)) (Discovering cb) cbs = Discovering cb"
  by (induction cbs) auto

text \<open>
  C7: in the Discovering state entered by \<open>StartDiscovery(cb)\<close> from Idle,
  \<open>StopDiscovery(cb2)\<close> with another callback identity leaves the registration
  as it is, and so does any run of such calls; \<open>StopDiscovery\<close> ends discovery
  only for the identity \<open>cb\<close>.
\<close>

theorem StopDiscovery_identity:
  "snd (StartDiscovery Idle cb) = Discovering cb
   \<and> (cb2 \<noteq> cb \<longrightarrow>
        snd (StopDiscovery (snd (StartDiscovery Idle cb)) cb2) = snd (StartDiscovery Idle cb))
   \<and> (cb \<notin> set cbs \<longrightarrow>
        foldl (\<lambda>m c. snd (StopDiscovery m c)) (snd (StartDiscovery Idle cb)) cbs
          = snd (StartDiscovery Idle cb))
   \<and> snd (StopDiscovery (snd (StartDiscovery Idle cb)) cb) = Idle
   \<and> (snd (StopDiscovery (snd (StartDiscovery Idle cb)) cb2) = Idle) = (cb2 = cb)"
  using StopDiscovery_others [of cb cbs] by simp

theorem StopDiscovery_identity_witness:
  "(2::nat) \<noteq> 1 \<and> (1::nat) \<notin> set [2, 3, 2]
   \<and> snd (StopDiscovery (snd (StartDiscovery Idle 1)) 2) = Discovering 1
   \<and> foldl (\<lambda>m c. snd (StopDiscovery m c)) (snd (StartDiscovery Idle 1)) [2, 3, 2]
        = Discovering 1
   \<and> snd (StopDiscovery (snd (StartDiscovery Idle 1)) 1) = Idle"
  using StopDiscovery_identity [of 1 2 "[2, 3, 2]"] by simp

text \<open>
  C8, on the code: for the socket that the constructor builds over a live native
  socket, \<open>GetRemoteDevice()\<close> returns \<open>nullptr\<close>, as it does for every
  socket; the peer is never returned.
\<close>

theorem GetRemoteDevice_connected_socket:
  "BluetoothSocket_new (Some 1) (Done (Some 2)) (Done (Some 3))
     = Returns \<lparr>windows_socket = Some 1,
                input_stream = Some \<lparr>input_winrt_stream = Some 2\<rparr>,
                output_stream = Some \<lparr>output_winrt_stream = Some 3\<rparr>\<rparr>
   \<and> GetRemoteDevice \<lparr>windows_socket = Some 1,
                input_stream = Some \<lparr>input_winrt_stream = Some 2\<rparr>,
                output_stream = Some \<lparr>output_winrt_stream = Some 3\<rparr>\<rparr> = None"
  by (simp add: BluetoothSocket_new_def BluetoothInputStream_new_def
        BluetoothOutputStream_new_def GetRemoteDevice_def)

lemma BluetoothSocket_new_streams:
  assumes "BluetoothSocket_new socket i out = Returns this"
  shows "i = Done (input_winrt_stream (the (input_stream this)))"
    and "out = Done (output_winrt_stream (the (output_stream this)))"
  using assms
  by (auto simp: BluetoothSocket_new_def BluetoothInputStream_new_def
        BluetoothOutputStream_new_def split: option.splits native.splits)

text \<open>
  C9: after a construction that returns, and after any calls of the socket's
  methods that follow it other than \<open>Close()\<close>, both stream pointers are
  non-null, \<open>GetInputStream\<close> and \<open>GetOutputStream\<close> return the very stream
  objects the pointers hold, and these wrap the native streams the constructor
  obtained; after a \<open>Close()\<close> that returns, the native socket and both stream
  pointers are null.
\<close>

theorem stream_pointers_invariant:
  assumes "BluetoothSocket_new socket i out = Returns this"
    and "list_all (\<lambda>c. \<not> is_Close c) calls"
  shows "input_stream (after_calls this calls) \<noteq> None
     \<and> output_stream (after_calls this calls) \<noteq> None
     \<and> GetInputStream (after_calls this calls) = Returns (the (input_stream this))
     \<and> GetOutputStream (after_calls this calls) = Returns (the (output_stream this))
     \<and> i = Done (input_winrt_stream (the (input_stream this)))
     \<and> out = Done (output_winrt_stream (the (output_stream this)))
     \<and> (fst (Close (after_calls this calls) n) = Returns e \<longrightarrow>
           windows_socket (snd (Close (after_calls this calls) n)) = None
           \<and> input_stream (snd (Close (after_calls this calls) n)) = None
           \<and> output_stream (snd (Close (after_calls this calls) n)) = None)"
proof -
  have same: "after_calls this calls = this"
    using assms(2) by (rule after_calls_no_Close)
  have live: "input_stream this \<noteq> None" "output_stream this \<noteq> None"
    using BluetoothSocket_new_Returns [OF assms(1)] by simp_all
  then have handed: "GetInputStream this = Returns (the (input_stream this))"
    "GetOutputStream this = Returns (the (output_stream this))"
    by (auto simp: GetInputStream_def GetOutputStream_def)
  show ?thesis
    using same live handed BluetoothSocket_new_streams [OF assms(1)]
      Close_Returns(2,3,4) [of this n e]
    by simp
qed

theorem stream_pointers_invariant_witness:
  "BluetoothSocket_new (Some 1) (Done (Some 2)) (Done (Some 3))
     = Returns \<lparr>windows_socket = Some 1,
                input_stream = Some \<lparr>input_winrt_stream = Some 2\<rparr>,
                output_stream = Some \<lparr>output_winrt_stream = Some 3\<rparr>\<rparr>
   \<and> list_all (\<lambda>c. \<not> is_Close c)
        [CallGetInputStream, CallConnectAsync ''host'' ''service'' (Done 5),
         CallGetRemoteDevice, CallCancelIOAsync (Throws StdException)]
   \<and> input_stream (after_calls \<lparr>windows_socket = Some 1,
                input_stream = Some \<lparr>input_winrt_stream = Some 2\<rparr>,
                output_stream = Some \<lparr>output_winrt_stream = Some 3\<rparr>\<rparr>
        [CallGetInputStream, CallConnectAsync ''host'' ''service'' (Done 5),
         CallGetRemoteDevice, CallCancelIOAsync (Throws StdException)]) \<noteq> None
   \<and> GetInputStream (after_calls \<lparr>windows_socket = Some 1,
                input_stream = Some \<lparr>input_winrt_stream = Some 2\<rparr>,
                output_stream = Some \<lparr>output_winrt_stream = Some 3\<rparr>\<rparr>
        [CallGetInputStream, CallConnectAsync ''host'' ''service'' (Done 5),
         CallGetRemoteDevice, CallCancelIOAsync (Throws StdException)]) = Returns \<lparr>input_winrt_stream = Some 2\<rparr>
   \<and> GetOutputStream (after_calls \<lparr>windows_socket = Some 1,
                input_stream = Some \<lparr>input_winrt_stream = Some 2\<rparr>,
                output_stream = Some \<lparr>output_winrt_stream = Some 3\<rparr>\<rparr>
        [CallGetInputStream, CallConnectAsync ''host'' ''service'' (Done 5),
         CallGetRemoteDevice, CallCancelIOAsync (Throws StdException)]) = Returns \<lparr>output_winrt_stream = Some 3\<rparr>
   \<and> fst (Close (after_calls \<lparr>windows_socket = Some 1,
                input_stream = Some \<lparr>input_winrt_stream = Some 2\<rparr>,
                output_stream = Some \<lparr>output_winrt_stream = Some 3\<rparr>\<rparr>
        [CallGetInputStream, CallConnectAsync ''host'' ''service'' (Done 5),
         CallGetRemoteDevice, CallCancelIOAsync (Throws StdException)]) (Done ())) = Returns kSuccess
   \<and> windows_socket (snd (Close (after_calls \<lparr>windows_socket = Some 1,
                input_stream = Some \<lparr>input_winrt_stream = Some 2\<rparr>,
                output_stream = Some \<lparr>output_winrt_stream = Some 3\<rparr>\<rparr>
        [CallGetInputStream, CallConnectAsync ''host'' ''service'' (Done 5),
         CallGetRemoteDevice, CallCancelIOAsync (Throws StdException)]) (Done ()))) = None"
proof -
  let ?sock = "\<lparr>windows_socket = Some 1,
                input_stream = Some \<lparr>input_winrt_stream = Some 2\<rparr>,
                output_stream = Some \<lparr>output_winrt_stream = Some 3\<rparr>\<rparr>"
  let ?calls = "[CallGetInputStream, CallConnectAsync ''host'' ''service'' (Done 5),
         CallGetRemoteDevice, CallCancelIOAsync (Throws StdException)]"
  have new: "BluetoothSocket_new (Some 1) (Done (Some 2)) (Done (Some 3)) = Returns ?sock"
    by (simp add: BluetoothSocket_new_def BluetoothInputStream_new_def
          BluetoothOutputStream_new_def)
  have calls: "list_all (\<lambda>c. \<not> is_Close c) ?calls"
    by simp
  have closes: "fst (Close (after_calls ?sock ?calls) (Done ())) = Returns kSuccess"
    by (simp add: Close_def)
  have same: "after_calls ?sock ?calls = ?sock"
    by simp
  note inv = stream_pointers_invariant [OF new calls, of "Done ()" kSuccess]
  from inv have handed: "GetInputStream (after_calls ?sock ?calls) = Returns (the (input_stream ?sock))"
    "GetOutputStream (after_calls ?sock ?calls) = Returns (the (output_stream ?sock))"
    by blast+
  from inv closes have nulled: "windows_socket (snd (Close (after_calls ?sock ?calls) (Done ()))) = None"
    by blast
  from inv have live: "input_stream (after_calls ?sock ?calls) \<noteq> None"
    by blast
  have "the (input_stream ?sock) = \<lparr>input_winrt_stream = Some 2\<rparr>"
    "the (output_stream ?sock) = \<lparr>output_winrt_stream = Some 3\<rparr>"
    by simp_all
  with handed have handed': "GetInputStream (after_calls ?sock ?calls) = Returns \<lparr>input_winrt_stream = Some 2\<rparr>"
    "GetOutputStream (after_calls ?sock ?calls) = Returns \<lparr>output_winrt_stream = Some 3\<rparr>"
    by (simp_all only:)
  show ?thesis
    using new calls live handed' closes nulled by blast
qed

text \<open>
  C10, as stated: \<open>Write\<close>, \<open>Flush\<close> and the two stream \<open>Close\<close> functions
  return the Failed kind when the underlying call throws. Against it: when the
  underlying call throws an object that is not a \<open>std::exception\<close>, none of
  the four returns \<open>kFailed\<close>, the object leaves the function; and a \<open>Write\<close>
  of \<open>2^32\<close> bytes, whose buffer capacity narrows to 0, overruns the buffer
  before the native call is reached.
\<close>

theorem sibling_failure_branch_counterexample:
  "Write \<lparr>output_winrt_stream = Some 3\<rparr> [1, 2] (WriteAsync_throws OtherThrown)
     = Propagates OtherThrown
   \<and> Flush \<lparr>output_winrt_stream = Some 3\<rparr> (Throws OtherThrown) = Propagates OtherThrown
   \<and> BluetoothInputStream_Close \<lparr>input_winrt_stream = Some 2\<rparr> (Throws OtherThrown)
     = Propagates OtherThrown
   \<and> BluetoothOutputStream_Close \<lparr>output_winrt_stream = Some 3\<rparr> (Throws OtherThrown)
     = Propagates OtherThrown
   \<and> Write \<lparr>output_winrt_stream = Some 3\<rparr> (replicate 4294967296 0)
        (WriteAsync_throws StdException)
     = Undefined"
proof -
  have small: "Write \<lparr>output_winrt_stream = Some 3\<rparr> [1, 2] (WriteAsync_throws OtherThrown)
       = Propagates OtherThrown
     \<and> Flush \<lparr>output_winrt_stream = Some 3\<rparr> (Throws OtherThrown) = Propagates OtherThrown
     \<and> BluetoothInputStream_Close \<lparr>input_winrt_stream = Some 2\<rparr> (Throws OtherThrown)
       = Propagates OtherThrown
     \<and> BluetoothOutputStream_Close \<lparr>output_winrt_stream = Some 3\<rparr> (Throws OtherThrown)
       = Propagates OtherThrown"
    by (simp add: Write_def WriteAsync_throws_def memcpy_into_def Buffer_new_def
          Flush_def BluetoothInputStream_Close_def BluetoothOutputStream_Close_def)
  have "length (replicate 4294967296 (0 :: 8 word)) = 2 ^ 32"
    by (simp only: length_replicate) simp
  then have "Write \<lparr>output_winrt_stream = Some 3\<rparr> (replicate 4294967296 0)
        (WriteAsync_throws StdException) = Undefined"
    by (rule Write_overrun)
  with small show ?thesis
    by blast
qed

text \<open>
  C10, amended: whatever the size and the native behaviour, \<open>Read\<close> never
  returns an \<open>ExceptionOr\<close> that holds an exception; what it returns holds a
  byte array. \<open>Write\<close> of fewer than \<open>2^32\<close> bytes, \<open>Flush\<close> and the two
  stream \<open>Close\<close> functions, on a non-null native stream, each return
  \<open>kFailed\<close> when their native call throws a \<open>std::exception\<close> and
  \<open>kSuccess\<close> when it returns.
\<close>

theorem Read_has_no_error_return:
  "(\<forall>e. Read st sz ReadAsync \<noteq> Returns (ExceptionOrException e))
   \<and> (\<forall>r. Read st sz ReadAsync = Returns r \<longrightarrow> (\<exists>data. r = ExceptionOrResult data))
   \<and> (length data < 2 ^ 32 \<longrightarrow>
        Write \<lparr>output_winrt_stream = Some h\<rparr> data (WriteAsync_throws StdException)
          = Returns kFailed
        \<and> (WriteAsync \<lparr>Capacity = of_nat (length data), Length = 0, storage = data\<rparr>
              = Throws StdException \<longrightarrow>
            Write \<lparr>output_winrt_stream = Some h\<rparr> data WriteAsync = Returns kFailed)
        \<and> (WriteAsync' \<lparr>Capacity = of_nat (length data), Length = 0, storage = data\<rparr>
              = Done () \<longrightarrow>
            Write \<lparr>output_winrt_stream = Some h\<rparr> data WriteAsync' = Returns kSuccess))
   \<and> Flush \<lparr>output_winrt_stream = Some h\<rparr> (Throws StdException) = Returns kFailed
   \<and> Flush \<lparr>output_winrt_stream = Some h\<rparr> (Done ()) = Returns kSuccess
   \<and> BluetoothInputStream_Close \<lparr>input_winrt_stream = Some h\<rparr> (Throws StdException)
        = Returns kFailed
   \<and> BluetoothInputStream_Close \<lparr>input_winrt_stream = Some h\<rparr> (Done ())
        = Returns kSuccess
   \<and> BluetoothOutputStream_Close \<lparr>output_winrt_stream = Some h\<rparr> (Throws StdException)
        = Returns kFailed
   \<and> BluetoothOutputStream_Close \<lparr>output_winrt_stream = Some h\<rparr> (Done ())
        = Returns kSuccess"
proof -
  have no_error: "Read st sz ReadAsync \<noteq> Returns (ExceptionOrException e)" for e
    by (simp add: Read_def Let_def split: option.splits native.splits)
  have result: "\<exists>data. r = ExceptionOrResult data" if "Read st sz ReadAsync = Returns r" for r
    using that no_error by (cases r) simp_all
  have write_fails: "Write \<lparr>output_winrt_stream = Some h\<rparr> data (WriteAsync_throws StdException)
      = Returns kFailed" if "length data < 2 ^ 32"
    using that by (simp add: Write_cases WriteAsync_throws_def)
  have write_native: "Write \<lparr>output_winrt_stream = Some h\<rparr> data W =
      (case W \<lparr>Capacity = of_nat (length data), Length = 0, storage = data\<rparr> of
         Throws StdException \<Rightarrow> Returns kFailed
       | Throws OtherThrown \<Rightarrow> Propagates OtherThrown
       | Done u \<Rightarrow> Returns kSuccess)" if "length data < 2 ^ 32" for W
    using that by (simp add: Write_cases)
  have write_both: "(WriteAsync \<lparr>Capacity = of_nat (length data), Length = 0, storage = data\<rparr>
              = Throws StdException \<longrightarrow>
            Write \<lparr>output_winrt_stream = Some h\<rparr> data WriteAsync = Returns kFailed)
        \<and> (WriteAsync' \<lparr>Capacity = of_nat (length data), Length = 0, storage = data\<rparr>
              = Done () \<longrightarrow>
            Write \<lparr>output_winrt_stream = Some h\<rparr> data WriteAsync' = Returns kSuccess)"
    if "length data < 2 ^ 32"
    using write_native [OF that, of WriteAsync] write_native [OF that, of WriteAsync'] by simp
  show ?thesis
    using no_error result write_fails write_both
    by (simp add: Flush_def BluetoothInputStream_Close_def BluetoothOutputStream_Close_def)
qed

theorem Read_has_no_error_return_witness:
  "Read \<lparr>input_winrt_stream = Some 2\<rparr> 4 (ReadAsync_delivers [7, 8, 9])
     = Returns (ExceptionOrResult [7, 8, 9])
   \<and> length [1, 2 :: 8 word] < 2 ^ 32
   \<and> WriteAsync_throws StdException
        \<lparr>Capacity = of_nat (length [1, 2 :: 8 word]), Length = 0, storage = [1, 2]\<rparr>
       = Throws StdException
   \<and> WriteAsync_accepts
        \<lparr>Capacity = of_nat (length [1, 2 :: 8 word]), Length = 0, storage = [1, 2]\<rparr>
       = Done ()
   \<and> Write \<lparr>output_winrt_stream = Some 3\<rparr> [1, 2] (WriteAsync_throws StdException)
          = Returns kFailed
   \<and> Write \<lparr>output_winrt_stream = Some 3\<rparr> [1, 2] WriteAsync_accepts
          = Returns kSuccess"
proof -
  have r: "Read \<lparr>input_winrt_stream = Some 2\<rparr> 4 (ReadAsync_delivers [7, 8, 9])
     = Returns (ExceptionOrResult [7, 8, 9])"
    by (simp add: Read_def ReadAsync_delivers_def Buffer_new_def ByteArray_from_def Let_def)
  show ?thesis
    using r Read_has_no_error_return
      [of "\<lparr>input_winrt_stream = Some 2\<rparr>" 4 "ReadAsync_delivers [7, 8, 9]" "[1, 2]" 3
          "WriteAsync_throws StdException" WriteAsync_accepts]
    by (simp add: WriteAsync_throws_def WriteAsync_accepts_def)
qed

end
